theory Spec2Isabelle
  imports Main "HOL-Library.AList" "HOL-Library.Multiset"
begin

section \<open>Python values, exceptions and dictionaries\<close>

text \<open>
  The exceptions the modelled functions can raise. A raising computation is a value
  \<open>Inl e\<close> of the sum type, a normal return is \<open>Inr v\<close>.
\<close>

datatype py_error =
    KeyError | ValueError | TypeError | IndexError | AttributeError | ImportError
  | ACTRError | OtherError string

text \<open>
  The Python values that occur as attribute values of a stimulus and as entries of
  \<open>extra_tests\<close>: \<open>None\<close>, booleans, unbounded integers, strings and tuples.
  Floating point numbers are not part of the model.
\<close>

datatype pyval = PNone | PBool bool | PInt int | PStr string | PTuple "pyval list"

text \<open>Python's \<open>==\<close>: a boolean compares as the integer 0 or 1, tuples compare elementwise.\<close>

fun py_eq :: "pyval \<Rightarrow> pyval \<Rightarrow> bool"
  and py_eq_list :: "pyval list \<Rightarrow> pyval list \<Rightarrow> bool" where
  "py_eq PNone PNone = True"
| "py_eq (PBool a) (PBool b) = (a = b)"
| "py_eq (PBool a) (PInt j) = ((if a then 1 else 0) = j)"
| "py_eq (PInt i) (PBool b) = (i = (if b then 1 else 0))"
| "py_eq (PInt i) (PInt j) = (i = j)"
| "py_eq (PStr s) (PStr t) = (s = t)"
| "py_eq (PTuple xs) (PTuple ys) = py_eq_list xs ys"
| "py_eq _ _ = False"
| "py_eq_list [] [] = True"
| "py_eq_list (x # xs) (y # ys) = (py_eq x y \<and> py_eq_list xs ys)"
| "py_eq_list _ _ = False"

text \<open>Truth value of an object, as \<open>and\<close> and \<open>if\<close> test it.\<close>

fun py_truthy :: "pyval \<Rightarrow> bool" where
  "py_truthy PNone = False"
| "py_truthy (PBool b) = b"
| "py_truthy (PInt i) = (i \<noteq> 0)"
| "py_truthy (PStr s) = (s \<noteq> [])"
| "py_truthy (PTuple xs) = (xs \<noteq> [])"

text \<open>
  A dictionary with string keys, in insertion order. \<open>d.get(k)\<close> is \<open>map_of d k\<close>,
  \<open>d.update({k: v})\<close> is \<open>AList.update k v d\<close>.
\<close>

type_synonym attrs = "(string \<times> pyval) list"

text \<open>
  Equality of two dictionaries: the same number of keys, and every key of the first is a
  key of the second with an equal value.
\<close>

definition dict_eq :: "attrs \<Rightarrow> attrs \<Rightarrow> bool" where
  "dict_eq a b =
     (length a = length b \<and>
      list_all (\<lambda>(k, v). case map_of b k of None \<Rightarrow> False | Some w \<Rightarrow> py_eq v w) a)"

text \<open>\<open>x in seq\<close> for a sequence of dictionaries.\<close>

definition dict_in :: "attrs \<Rightarrow> attrs list \<Rightarrow> bool" where
  "dict_in a ds = list_ex (dict_eq a) ds"

subsection \<open>\<open>int(...)\<close>\<close>

text \<open>
  A character of a string is a code point below 256. The white space \<open>int\<close> skips at
  both ends of a string: the ASCII white space of C, and the two other space characters of
  that range, U+0085 and U+00A0. (The separators U+001C to U+001F, which \<open>str.strip\<close>
  removes, are not skipped by \<open>int\<close>.)
\<close>

definition is_space :: "char \<Rightarrow> bool" where
  "is_space c =
     (c \<in> {CHR 0x09, CHR 0x0A, CHR 0x0B, CHR 0x0C, CHR 0x0D, CHR '' '', CHR 0x85, CHR 0xA0})"

definition is_digit :: "char \<Rightarrow> bool" where
  "is_digit c = (48 \<le> (of_char c :: nat) \<and> (of_char c :: nat) \<le> 57)"

definition digit_val :: "char \<Rightarrow> nat" where
  "digit_val c = of_char c - 48"

text \<open>
  The digits of a decimal literal, most significant first; a single underscore may stand
  between two digits.
\<close>

fun digits_from :: "nat \<Rightarrow> string \<Rightarrow> nat option" where
  "digits_from acc [] = Some acc"
| "digits_from acc (c # cs) =
     (if is_digit c then digits_from (10 * acc + digit_val c) cs
      else if c = CHR ''_'' \<and> cs \<noteq> [] \<and> is_digit (hd cs) then digits_from acc cs
      else None)"

definition unsigned_literal :: "string \<Rightarrow> nat option" where
  "unsigned_literal s =
     (case s of [] \<Rightarrow> None | c # cs \<Rightarrow> if is_digit c then digits_from 0 s else None)"

definition strip :: "string \<Rightarrow> string" where
  "strip s = rev (dropWhile is_space (rev (dropWhile is_space s)))"

text \<open>\<open>int(s)\<close> for a string: \<open>None\<close> is the \<open>ValueError\<close>.\<close>

definition int_of_str :: "string \<Rightarrow> int option" where
  "int_of_str s =
     (case strip s of
        [] \<Rightarrow> None
      | c # cs \<Rightarrow>
          if c = CHR ''-'' then map_option (\<lambda>n. - int n) (unsigned_literal cs)
          else if c = CHR ''+'' then map_option int (unsigned_literal cs)
          else map_option int (unsigned_literal (c # cs)))"

text \<open>\<open>int(v)\<close> for a value.\<close>

fun py_int :: "pyval \<Rightarrow> py_error + int" where
  "py_int (PInt i) = Inr i"
| "py_int (PBool b) = Inr (if b then 1 else 0)"
| "py_int (PStr s) = (case int_of_str s of None \<Rightarrow> Inl ValueError | Some i \<Rightarrow> Inr i)"
| "py_int PNone = Inl TypeError"
| "py_int (PTuple xs) = Inl TypeError"

text \<open>Index normalisation: a negative index counts from the end.\<close>

definition py_index :: "nat \<Rightarrow> int \<Rightarrow> nat option" where
  "py_index n i =
     (if 0 \<le> i \<and> i < int n then Some (nat i)
      else if - int n \<le> i \<and> i < 0 then Some (nat (i + int n))
      else None)"

text \<open>\<open>v[i]\<close>: tuples and strings can be subscripted, everything else raises.\<close>

fun subscript :: "pyval \<Rightarrow> int \<Rightarrow> py_error + pyval" where
  "subscript (PTuple xs) i =
     (case py_index (length xs) i of None \<Rightarrow> Inl IndexError | Some k \<Rightarrow> Inr (xs ! k))"
| "subscript (PStr s) i =
     (case py_index (length s) i of None \<Rightarrow> Inl IndexError | Some k \<Rightarrow> Inr (PStr [s ! k]))"
| "subscript _ i = Inl TypeError"


section \<open>The visual search routine \<open>patched_find\<close>\<close>

subsection \<open>Chunks of the cognitive architecture\<close>

text \<open>
  A slot of the resolved request chunk \<open>chunk_used_for_search\<close> is either the empty value
  of the architecture, which has no attribute \<open>values\<close>, or a tuple whose field
  \<open>values\<close> is \<open>None\<close> or a string.
\<close>

datatype slot = EmptyValue | Varval (slot_values: "string option")

text \<open>
  The request chunk after resolution: the three slots the routine reads by name (the
  chunk type \<open>_visuallocation\<close> declares them, so the constructor fills each of them
  with the empty value when the request leaves it out), and the remaining slots, which only
  the compatibility test looks at.
\<close>

record query =
  value_slot :: slot
  screen_x_slot :: slot
  screen_y_slot :: slot
  other_slots :: "(string \<times> slot) list"

text \<open>
  Modelled from the spec: the chunk class of the pyactr library (its constructor,
  \<open>makechunk\<close> and \<open>_asdict\<close>) is not part of the repository. A chunk is the type
  marker together with the keyword arguments it was built from; \<open>makechunk\<close> builds
  the filtered record tagged with the given type name, and \<open>_asdict\<close> gives the
  attributes back.
\<close>

datatype chunk = Chunk (typename: string) (slots: attrs)

definition VISUALLOCATION :: string where
  "VISUALLOCATION = ''_visuallocation''"

definition makechunk :: "string \<Rightarrow> string \<Rightarrow> attrs \<Rightarrow> chunk" where
  "makechunk nameofchunk tname kwargs = Chunk tname kwargs"

definition asdict :: "chunk \<Rightarrow> attrs" where
  "asdict c = slots c"

text \<open>
  Modelled from the spec: the compatibility test \<open>visible_chunk <= chunk_used_for_search\<close>
  belongs to the pyactr library. Section 4.2 of the specification: the candidate satisfies
  the query iff for every attribute the query constrains with a non-empty value the candidate
  has that attribute with an equal value; attributes of the candidate the query does not
  constrain never block a match. The test ranges over the open attribute slots; the text
  and the coordinates are decided by the filters of the scan. \<open>patched_find\<close> below takes
  the test as a parameter, and this definition is only used to run it on concrete inputs.
\<close>

definition satisfies :: "chunk \<Rightarrow> query \<Rightarrow> bool" where
  "satisfies c q =
     list_all (\<lambda>(k, s). case s of
                 EmptyValue \<Rightarrow> True
               | Varval None \<Rightarrow> True
               | Varval (Some v) \<Rightarrow>
                   (case map_of (slots c) k of None \<Rightarrow> False | Some w \<Rightarrow> py_eq (PStr v) w))
       (other_slots q)"

subsection \<open>The state the routine reads\<close>

text \<open>
  \<open>self\<close>: the stimuli of the environment (a dictionary from stimulus id to the
  stimulus's attributes, in insertion order), the FINST count and the recently attended
  stimuli. The routine assigns to none of them.
\<close>

record visual_location =
  stimulus :: "(string \<times> attrs) list"
  finst :: pyval
  recent :: "attrs list"

subsection \<open>One iteration of the loop\<close>

definition attended_flag :: "attrs \<Rightarrow> pyval" where
  "attended_flag extra_tests =
     (case map_of extra_tests ''attended'' of None \<Rightarrow> PNone | Some v \<Rightarrow> v)"

text \<open>\<open>attended_flag in (False, "False")\<close>\<close>

definition in_False :: "pyval \<Rightarrow> bool" where
  "in_False v = (py_eq v (PBool False) \<or> py_eq v (PStr ''False''))"

text \<open>The attention filter: \<open>True\<close> when the iteration ends with \<open>continue\<close>.\<close>

definition attention_skip :: "visual_location \<Rightarrow> attrs \<Rightarrow> attrs \<Rightarrow> bool" where
  "attention_skip self extra_tests stim_attrs =
     (let flag = attended_flag extra_tests in
      if in_False flag then py_truthy (finst self) \<and> dict_in stim_attrs (recent self)
      else if \<not> in_False flag \<and> flag \<noteq> PNone
        then py_truthy (finst self) \<and> \<not> dict_in stim_attrs (recent self)
      else False)"

definition opt_str :: "string option \<Rightarrow> pyval" where
  "opt_str v = (case v of None \<Rightarrow> PNone | Some s \<Rightarrow> PStr s)"

text \<open>The text filter. A \<open>Varval\<close> tuple never equals the empty value.\<close>

definition text_skip :: "query \<Rightarrow> attrs \<Rightarrow> bool" where
  "text_skip q stim_attrs =
     (case value_slot q of
        EmptyValue \<Rightarrow> False
      | Varval v \<Rightarrow>
          \<not> py_eq (opt_str v) (case map_of stim_attrs ''text'' of None \<Rightarrow> PNone | Some t \<Rightarrow> t))"

text \<open>
  \<open>(int(stim_attrs["position"][0]), int(stim_attrs["position"][1]))\<close>, evaluated from
  left to right, outside any \<open>try\<close>.
\<close>

definition get_position :: "attrs \<Rightarrow> py_error + (int \<times> int)" where
  "get_position stim_attrs =
     (case map_of stim_attrs ''position'' of
        None \<Rightarrow> Inl KeyError
      | Some p \<Rightarrow>
          (case subscript p 0 of
             Inl e \<Rightarrow> Inl e
           | Inr a \<Rightarrow>
               (case py_int a of
                  Inl e \<Rightarrow> Inl e
                | Inr x \<Rightarrow>
                    (case subscript p 1 of
                       Inl e \<Rightarrow> Inl e
                     | Inr b \<Rightarrow>
                         (case py_int b of
                            Inl e \<Rightarrow> Inl e
                          | Inr y \<Rightarrow> Inr (x, y))))))"

text \<open>
  The condition of a coordinate test, as it stands inside the \<open>try\<close>:
  \<open>slot.values and int(slot.values) != p\<close>.
\<close>

definition coordinate_test :: "slot \<Rightarrow> int \<Rightarrow> py_error + bool" where
  "coordinate_test s p =
     (case s of
        EmptyValue \<Rightarrow> Inl AttributeError
      | Varval None \<Rightarrow> Inr False
      | Varval (Some v) \<Rightarrow>
          if v = [] then Inr False
          else (case int_of_str v of None \<Rightarrow> Inl ValueError | Some n \<Rightarrow> Inr (n \<noteq> p)))"

text \<open>\<open>except (TypeError, ValueError, AttributeError): pass\<close>\<close>

definition swallow :: "py_error + bool \<Rightarrow> py_error + bool" where
  "swallow r =
     (case r of
        Inl e \<Rightarrow> if e \<in> {TypeError, ValueError, AttributeError} then Inr False else Inl e
      | Inr b \<Rightarrow> Inr b)"

definition coordinate_skip :: "slot \<Rightarrow> int \<Rightarrow> py_error + bool" where
  "coordinate_skip s p = swallow (coordinate_test s p)"

definition reserved :: "string set" where
  "reserved = {''position'', ''text'', ''vis_delay''}"

definition filtered :: "attrs \<Rightarrow> attrs" where
  "filtered stim_attrs = filter (\<lambda>(k, v). k \<notin> reserved) stim_attrs"

text \<open>
  How an iteration ends: with \<open>continue\<close> before \<open>found_stim\<close> is assigned, by falling
  through after the compatibility test failed (\<open>found_stim\<close> is then assigned), or with
  \<open>break\<close> after both \<open>found\<close> and \<open>found_stim\<close> are assigned.
\<close>

datatype outcome = Skip | Reject attrs | Match chunk attrs

definition location_chunk :: "chunk \<Rightarrow> int \<Rightarrow> int \<Rightarrow> chunk" where
  "location_chunk visible_chunk x y =
     Chunk VISUALLOCATION
       (AList.update ''screen_y'' (PInt y) (AList.update ''screen_x'' (PInt x) (asdict visible_chunk)))"

definition candidate ::
  "(chunk \<Rightarrow> query \<Rightarrow> py_error + bool) \<Rightarrow> visual_location \<Rightarrow> query \<Rightarrow> attrs \<Rightarrow> attrs
     \<Rightarrow> py_error + outcome" where
  "candidate le self q extra_tests stim_attrs =
     (if attention_skip self extra_tests stim_attrs then Inr Skip
      else if text_skip q stim_attrs then Inr Skip
      else
        (case get_position stim_attrs of
           Inl e \<Rightarrow> Inl e
         | Inr (x, y) \<Rightarrow>
             (case coordinate_skip (screen_x_slot q) x of
                Inl e \<Rightarrow> Inl e
              | Inr True \<Rightarrow> Inr Skip
              | Inr False \<Rightarrow>
                  (case coordinate_skip (screen_y_slot q) y of
                     Inl e \<Rightarrow> Inl e
                   | Inr True \<Rightarrow> Inr Skip
                   | Inr False \<Rightarrow>
                       (let visible_chunk =
                              makechunk ''vis1'' ''_visuallocation'' (filtered stim_attrs)
                        in case le visible_chunk q of
                             Inl e \<Rightarrow> Inl e
                           | Inr True \<Rightarrow>
                               Inr (Match (location_chunk visible_chunk x y) stim_attrs)
                           | Inr False \<Rightarrow> Inr (Reject stim_attrs))))))"

subsection \<open>The loop and the routine\<close>

text \<open>
  The loop over the stimuli. \<open>found\<close> is \<open>None\<close> until the \<open>break\<close>, so the loop state
  is \<open>found_stim\<close> alone.
\<close>

fun scan ::
  "(chunk \<Rightarrow> query \<Rightarrow> py_error + bool) \<Rightarrow> visual_location \<Rightarrow> query \<Rightarrow> attrs
     \<Rightarrow> attrs option \<Rightarrow> attrs list \<Rightarrow> py_error + (chunk option \<times> attrs option)" where
  "scan le self q extra_tests found_stim [] = Inr (None, found_stim)"
| "scan le self q extra_tests found_stim (stim_attrs # rest) =
     (case candidate le self q extra_tests stim_attrs of
        Inl e \<Rightarrow> Inl e
      | Inr Skip \<Rightarrow> scan le self q extra_tests found_stim rest
      | Inr (Reject s) \<Rightarrow> scan le self q extra_tests (Some s) rest
      | Inr (Match c s) \<Rightarrow> Inr (Some c, Some s))"

text \<open>\<open>if d is None: d = {}\<close>\<close>

definition or_empty :: "attrs option \<Rightarrow> attrs" where
  "or_empty d = (case d of None \<Rightarrow> [] | Some d' \<Rightarrow> d')"

text \<open>
  \<open>patched_find\<close>. The resolution of the request pattern against the bound variables
  (\<open>removeunused\<close>, \<open>check_bound_vars\<close> and the chunk constructor, all of the pyactr
  library) is the parameter \<open>resolve\<close>: it raises or gives \<open>chunk_used_for_search\<close>.
  The compatibility test is the parameter \<open>le\<close>.
\<close>

definition patched_find ::
  "('c \<Rightarrow> attrs \<Rightarrow> py_error + query) \<Rightarrow> (chunk \<Rightarrow> query \<Rightarrow> py_error + bool)
     \<Rightarrow> visual_location \<Rightarrow> 'c \<Rightarrow> attrs option \<Rightarrow> attrs option
     \<Rightarrow> py_error + (chunk option \<times> attrs option)" where
  "patched_find resolve le self otherchunk actrvariables extra_tests =
     (let extra_tests = or_empty extra_tests;
          actrvariables = or_empty actrvariables
      in case resolve otherchunk actrvariables of
           Inl e \<Rightarrow> Inl e
         | Inr chunk_used_for_search \<Rightarrow>
             scan le self chunk_used_for_search extra_tests None (map snd (stimulus self)))"

subsection \<open>The call with the object it runs on\<close>

text \<open>
  The same routine with the state of the call written out: the object \<open>self\<close> and the
  two local variables that live across iterations. Each iteration looks the stimulus up in
  the store of the object as it is then (\<open>self.environment.stimulus[each]\<close>), and what
  the call leaves behind is the object of the last frame.
\<close>

record frame =
  self_obj :: visual_location
  frame_found :: "chunk option"
  frame_found_stim :: "attrs option"

text \<open>
  One iteration for the key \<open>each\<close>: it raises, or gives the frame after it and whether
  the loop ends with \<open>break\<close>.
\<close>

definition iteration ::
  "(chunk \<Rightarrow> query \<Rightarrow> py_error + bool) \<Rightarrow> query \<Rightarrow> attrs \<Rightarrow> string \<Rightarrow> frame
     \<Rightarrow> py_error + (bool \<times> frame)" where
  "iteration le q extra_tests each f =
     (case map_of (stimulus (self_obj f)) each of
        None \<Rightarrow> Inl KeyError
      | Some stim_attrs \<Rightarrow>
          (case candidate le (self_obj f) q extra_tests stim_attrs of
             Inl e \<Rightarrow> Inl e
           | Inr Skip \<Rightarrow> Inr (False, f)
           | Inr (Reject s) \<Rightarrow> Inr (False, f\<lparr>frame_found_stim := Some s\<rparr>)
           | Inr (Match c s) \<Rightarrow> Inr (True, f\<lparr>frame_found := Some c, frame_found_stim := Some s\<rparr>)))"

text \<open>The loop over the keys: the exception that ended it, if any, and the last frame.\<close>

fun for_each ::
  "(chunk \<Rightarrow> query \<Rightarrow> py_error + bool) \<Rightarrow> query \<Rightarrow> attrs \<Rightarrow> frame \<Rightarrow> string list
     \<Rightarrow> py_error option \<times> frame" where
  "for_each le q extra_tests f [] = (None, f)"
| "for_each le q extra_tests f (each # rest) =
     (case iteration le q extra_tests each f of
        Inl e \<Rightarrow> (Some e, f)
      | Inr (True, f') \<Rightarrow> (None, f')
      | Inr (False, f') \<Rightarrow> for_each le q extra_tests f' rest)"

text \<open>The call: what it returns or raises, and the object after it.\<close>

definition call_patched_find ::
  "('c \<Rightarrow> attrs \<Rightarrow> py_error + query) \<Rightarrow> (chunk \<Rightarrow> query \<Rightarrow> py_error + bool)
     \<Rightarrow> visual_location \<Rightarrow> 'c \<Rightarrow> attrs option \<Rightarrow> attrs option
     \<Rightarrow> (py_error + (chunk option \<times> attrs option)) \<times> visual_location" where
  "call_patched_find resolve le self otherchunk actrvariables extra_tests =
     (let extra_tests = or_empty extra_tests;
          actrvariables = or_empty actrvariables
      in case resolve otherchunk actrvariables of
           Inl e \<Rightarrow> (Inl e, self)
         | Inr chunk_used_for_search \<Rightarrow>
             (case for_each le chunk_used_for_search extra_tests
                     \<lparr>self_obj = self, frame_found = None, frame_found_stim = None\<rparr>
                     (map fst (stimulus self)) of
                (Some e, f) \<Rightarrow> (Inl e, self_obj f)
              | (None, f) \<Rightarrow> (Inr (frame_found f, frame_found_stim f), self_obj f)))"

text \<open>An iteration that neither raises nor ends the loop.\<close>

definition falls_through :: "py_error + outcome \<Rightarrow> bool" where
  "falls_through r =
     (case r of Inl e \<Rightarrow> False | Inr Skip \<Rightarrow> True | Inr (Reject s) \<Rightarrow> True
      | Inr (Match c s) \<Rightarrow> False)"




section \<open>The level builder \<open>build_level\<close>\<close>

text \<open>
  \<open>matrix[r][c] = agent\<close> for each pair of \<open>zip(agents, coords[:num_agents])\<close>. An index
  outside the matrix raises \<open>IndexError\<close>.
\<close>

fun place ::
  "'a option list list \<Rightarrow> ('a \<times> (int \<times> int)) list \<Rightarrow> py_error + 'a option list list" where
  "place matrix [] = Inr matrix"
| "place matrix ((agent, (r, c)) # rest) =
     (case py_index (length matrix) r of
        None \<Rightarrow> Inl IndexError
      | Some i \<Rightarrow>
          (case py_index (length (matrix ! i)) c of
             None \<Rightarrow> Inl IndexError
           | Some j \<Rightarrow> place (matrix[i := (matrix ! i)[j := Some agent]]) rest))"

text \<open>
  \<open>build_level\<close>. The random number generator is the parameter \<open>shuffle\<close>: what
  \<open>rng.shuffle\<close> leaves in the list it is given.
\<close>

definition build_level ::
  "int \<Rightarrow> int \<Rightarrow> 'a list \<Rightarrow> ((int \<times> int) list \<Rightarrow> (int \<times> int) list)
     \<Rightarrow> py_error + 'a option list list" where
  "build_level height width agents shuffle =
     (if height \<le> 0 \<or> width \<le> 0 then Inl ValueError
      else
        (let total_cells = height * width;
             num_agents = int (length agents)
         in if num_agents > total_cells then Inl ValueError
            else
              (let matrix = replicate (nat height) (replicate (nat width) None);
                   coords = shuffle (concat (map (\<lambda>r. map (\<lambda>c. (r, c)) [0..width - 1])
                                                [0..height - 1]))
               in place matrix (zip agents (take (nat num_agents) coords)))))"

section \<open>The agent factory \<open>AgentTypeReturner\<close>\<close>

text \<open>
  What a module attribute can be: \<open>None\<close>, a class (with its \<open>__name__\<close> and the
  \<open>__module__\<close> it was defined in), or any other object.
\<close>

datatype pyobj = NoneObj | ClassObj (cls_name: string) (cls_module: string) | OtherObj string

text \<open>
  An imported module: its \<open>__name__\<close> and its attributes as \<open>inspect.getmembers\<close>
  lists them (pairs of name and object, sorted by name).
\<close>

record pymodule =
  mod_name :: string
  members :: "(string \<times> pyobj) list"

text \<open>\<open>getattr(module, name, None)\<close>\<close>

definition getattr_or_None :: "pymodule \<Rightarrow> string \<Rightarrow> pyobj" where
  "getattr_or_None m n = (case map_of (members m) n of None \<Rightarrow> NoneObj | Some obj \<Rightarrow> obj)"

text \<open>The loop of \<open>_first_local_class\<close> over the members that are classes.\<close>

fun first_local_loop :: "string \<Rightarrow> (string \<times> pyobj) list \<Rightarrow> pyobj" where
  "first_local_loop mname [] = NoneObj"
| "first_local_loop mname ((n, obj) # rest) =
     (case obj of
        ClassObj cn cm \<Rightarrow> if cm = mname then obj else first_local_loop mname rest
      | _ \<Rightarrow> first_local_loop mname rest)"

definition first_local_class :: "pymodule \<Rightarrow> pyobj" where
  "first_local_class m = first_local_loop (mod_name m) (members m)"

record agent_type_returner =
  base_package :: string
  cache :: "string \<rightharpoonup> pyobj \<times> pyobj"

text \<open>
  \<open>_resolve_agent_classes\<close>. \<open>import_module\<close> is the import system: it gives the module
  or raises, \<open>ImportError\<close> when the module cannot be imported and whatever else the
  module's own code raises while it is loaded. Only \<open>ImportError\<close> is caught and turned
  into \<open>ValueError\<close>. The result is what the call returns or raises, and the factory with
  its cache after the call.
\<close>

definition resolve_agent_classes ::
  "(string \<Rightarrow> py_error + pymodule) \<Rightarrow> agent_type_returner \<Rightarrow> string
     \<Rightarrow> (py_error + pyobj \<times> pyobj) \<times> agent_type_returner" where
  "resolve_agent_classes import_module self name =
     (case cache self name of
        Some classes \<Rightarrow> (Inr classes, self)
      | None \<Rightarrow>
          (let runner_module_name = base_package self @ ''.'' @ name;
               adapter_module_name = base_package self @ ''.'' @ name @ ''Adapter''
           in case import_module runner_module_name of
                Inl exc \<Rightarrow> (Inl (if exc = ImportError then ValueError else exc), self)
              | Inr runner_module \<Rightarrow>
                  (case import_module adapter_module_name of
                     Inl exc \<Rightarrow> (Inl (if exc = ImportError then ValueError else exc), self)
                   | Inr adapter_module \<Rightarrow>
                       (let runner_cls = getattr_or_None runner_module name;
                            adapter_cls = getattr_or_None adapter_module (name @ ''Adapter'');
                            runner_cls = (if runner_cls = NoneObj
                                          then first_local_class runner_module else runner_cls);
                            adapter_cls = (if adapter_cls = NoneObj
                                           then first_local_class adapter_module else adapter_cls)
                        in if runner_cls = NoneObj \<or> adapter_cls = NoneObj
                           then (Inl ValueError, self)
                           else (Inr (runner_cls, adapter_cls),
                                 self\<lparr>cache := (cache self)(name \<mapsto> (runner_cls, adapter_cls))\<rparr>)))))"

text \<open>
  \<open>return_agent_type\<close>. The three constructor calls on the resolved classes are the
  parameter \<open>instantiate\<close>.
\<close>

definition return_agent_type ::
  "(string \<Rightarrow> py_error + pymodule) \<Rightarrow> (pyobj \<Rightarrow> pyobj \<Rightarrow> 'e \<Rightarrow> 'i \<Rightarrow> py_error + 't)
     \<Rightarrow> agent_type_returner \<Rightarrow> string \<Rightarrow> 'e \<Rightarrow> 'i
     \<Rightarrow> (py_error + 't option) \<times> agent_type_returner" where
  "return_agent_type import_module instantiate self name actr_environment agent_id_list =
     (if name = ''Human'' then (Inr None, self)
      else
        (case resolve_agent_classes import_module self name of
           (Inl e, self') \<Rightarrow> (Inl e, self')
         | (Inr (runner_cls, adapter_cls), self') \<Rightarrow>
             (case instantiate runner_cls adapter_cls actr_environment agent_id_list of
                Inl e \<Rightarrow> (Inl e, self')
              | Inr t \<Rightarrow> (Inr (Some t), self'))))"

section \<open>Concrete inputs\<close>

text \<open>
  A request pattern that is already resolved, and the compatibility test of the
  specification as an instance of the parameter \<open>le\<close>.
\<close>

definition resolved :: "query \<Rightarrow> attrs \<Rightarrow> py_error + query" where
  "resolved otherchunk actrvariables = Inr otherchunk"

definition spec_le :: "chunk \<Rightarrow> query \<Rightarrow> py_error + bool" where
  "spec_le c q = Inr (satisfies c q)"

definition query_blue :: query where
  "query_blue =
     \<lparr>value_slot = EmptyValue, screen_x_slot = EmptyValue, screen_y_slot = EmptyValue,
      other_slots = [(''color'', Varval (Some ''blue''))]\<rparr>"

definition query_blue_at_5_5 :: query where
  "query_blue_at_5_5 =
     \<lparr>value_slot = EmptyValue, screen_x_slot = Varval (Some ''5''),
      screen_y_slot = Varval (Some '' +5''),
      other_slots = [(''color'', Varval (Some ''blue''))]\<rparr>"

definition stim_red :: attrs where
  "stim_red = [(''position'', PTuple [PInt 1, PInt 2]), (''color'', PStr ''red'')]"

definition stim_blue :: attrs where
  "stim_blue =
     [(''position'', PTuple [PInt 5, PInt 5]), (''text'', PStr ''X''),
      (''color'', PStr ''blue'')]"

definition stim_blue_late :: attrs where
  "stim_blue_late =
     [(''position'', PTuple [PInt 7, PInt 8]), (''color'', PStr ''blue''),
      (''vis_delay'', PInt 1)]"

definition stim_no_position :: attrs where
  "stim_no_position = [(''text'', PStr ''Y''), (''color'', PStr ''blue'')]"

definition stim_bad_position :: attrs where
  "stim_bad_position =
     [(''position'', PTuple [PStr ''left'', PInt 2]), (''color'', PStr ''blue'')]"

definition query_blue_at_x5 :: query where
  "query_blue_at_x5 =
     \<lparr>value_slot = EmptyValue, screen_x_slot = Varval (Some ''5''),
      screen_y_slot = Varval (Some ''five''),
      other_slots = [(''color'', Varval (Some ''blue''))]\<rparr>"

definition unattended :: attrs where
  "unattended = [(''attended'', PBool False)]"

definition example_self :: visual_location where
  "example_self =
     \<lparr>stimulus = [(''s0'', stim_red), (''s1'', stim_blue), (''s2'', stim_blue_late)],
      finst = PInt 4, recent = []\<rparr>"

text \<open>
  A package \<open>agents\<close>: the module \<open>Example\<close> imports a class from elsewhere and defines
  the classes \<open>Runner\<close> and \<open>Worker\<close> but no class \<open>Example\<close>; the module
  \<open>ExampleAdapter\<close> defines the expected class; loading the module \<open>Broken\<close> raises
  an exception of its own; there is no other module.
\<close>

definition example_runner_module :: pymodule where
  "example_runner_module =
     \<lparr>mod_name = ''agents.Example'',
      members = [(''Any'', ClassObj ''Any'' ''typing''),
                 (''Runner'', ClassObj ''Runner'' ''agents.Example''),
                 (''Worker'', ClassObj ''Worker'' ''agents.Example''),
                 (''__name__'', OtherObj ''agents.Example'')]\<rparr>"

definition example_adapter_module :: pymodule where
  "example_adapter_module =
     \<lparr>mod_name = ''agents.ExampleAdapter'',
      members = [(''ExampleAdapter'', ClassObj ''ExampleAdapter'' ''agents.ExampleAdapter'')]\<rparr>"

definition example_module :: "string \<Rightarrow> py_error + pymodule" where
  "example_module fullname =
     (if fullname = ''agents.Example'' then Inr example_runner_module
      else if fullname = ''agents.ExampleAdapter'' then Inr example_adapter_module
      else if fullname = ''agents.Broken'' then Inl (OtherError ''SyntaxError'')
      else Inl ImportError)"

definition example_factory :: agent_type_returner where
  "example_factory = \<lparr>base_package = ''agents'', cache = Map.empty\<rparr>"

lemmas int_defs =
  int_of_str_def strip_def is_space_def unsigned_literal_def is_digit_def digit_val_def

lemmas find_defs =
  patched_find_def or_empty_def candidate_def attention_skip_def attended_flag_def in_False_def
  text_skip_def opt_str_def get_position_def coordinate_skip_def coordinate_test_def
  swallow_def filtered_def reserved_def makechunk_def asdict_def location_chunk_def
  VISUALLOCATION_def dict_in_def dict_eq_def py_index_def falls_through_def

lemmas example_defs =
  resolved_def spec_le_def satisfies_def query_blue_def query_blue_at_5_5_def stim_red_def
  stim_blue_def stim_blue_late_def stim_no_position_def unattended_def example_self_def
  stim_bad_position_def query_blue_at_x5_def

lemmas factory_defs =
  resolve_agent_classes_def example_module_def example_factory_def example_runner_module_def
  example_adapter_module_def getattr_or_None_def first_local_class_def

section \<open>Properties of the scan\<close>

lemma candidate_Match:
  assumes "candidate le self q et stim = Inr (Match c s)"
  shows "s = stim \<and> \<not> attention_skip self et stim \<and> \<not> text_skip q stim \<and>
         (\<exists>x y. get_position stim = Inr (x, y) \<and>
                coordinate_skip (screen_x_slot q) x = Inr False \<and>
                coordinate_skip (screen_y_slot q) y = Inr False \<and>
                le (makechunk ''vis1'' ''_visuallocation'' (filtered stim)) q = Inr True \<and>
                c = location_chunk (makechunk ''vis1'' ''_visuallocation'' (filtered stim)) x y)"
  using assms
  by (auto simp: candidate_def Let_def split: if_splits sum.splits prod.splits bool.splits)

lemma candidate_Reject:
  assumes "candidate le self q et stim = Inr (Reject s)"
  shows "s = stim \<and> \<not> attention_skip self et stim \<and> \<not> text_skip q stim"
  using assms
  by (auto simp: candidate_def Let_def split: if_splits sum.splits prod.splits bool.splits)

lemma scan_found:
  assumes "scan le self q et fs xs = Inr (Some c, r)"
  shows "\<exists>s \<in> set xs. candidate le self q et s = Inr (Match c s) \<and> r = Some s"
  using assms
proof (induction xs arbitrary: fs)
  case Nil
  then show ?case by simp
next
  case (Cons a xs)
  then show ?case
    by (auto split: sum.splits outcome.splits dest: candidate_Match)
qed

lemma scan_found_stim:
  assumes "scan le self q et fs xs = Inr (found, Some s)"
  shows "fs = Some s \<or> (s \<in> set xs \<and> \<not> attention_skip self et s \<and> \<not> text_skip q s)"
  using assms
proof (induction xs arbitrary: fs)
  case Nil
  then show ?case by simp
next
  case (Cons a xs)
  show ?case
  proof (cases "candidate le self q et a")
    case (Inl e)
    with Cons.prems show ?thesis by simp
  next
    case (Inr out)
    show ?thesis
    proof (cases out)
      case Skip
      with Inr Cons.prems have "scan le self q et fs xs = Inr (found, Some s)" by simp
      from Cons.IH[OF this] show ?thesis by auto
    next
      case (Reject t)
      with Inr Cons.prems have "scan le self q et (Some t) xs = Inr (found, Some s)" by simp
      from Cons.IH[OF this] candidate_Reject[of le self q et a t] Inr Reject
      show ?thesis by auto
    next
      case (Match c t)
      with Inr Cons.prems candidate_Match[of le self q et a c t]
      show ?thesis by auto
    qed
  qed
qed

lemma scan_prefix:
  assumes "\<forall>s \<in> set pre. falls_through (candidate le self q et s)"
  shows "\<exists>fs'. scan le self q et fs (pre @ rest) = scan le self q et fs' rest"
  using assms
proof (induction pre arbitrary: fs)
  case Nil
  then show ?case by auto
next
  case (Cons a pre)
  then show ?case
    by (auto simp: falls_through_def split: sum.splits outcome.splits)
qed

lemma scan_all_skip:
  assumes "\<forall>s \<in> set xs. candidate le self q et s = Inr Skip"
  shows "scan le self q et fs xs = Inr (None, fs)"
  using assms by (induction xs) auto

lemma scan_no_match_found:
  assumes "\<forall>s \<in> set xs. falls_through (candidate le self q et s)"
  shows "\<exists>r. scan le self q et fs xs = Inr (None, r)"
  using assms
proof (induction xs arbitrary: fs)
  case Nil
  then show ?case by simp
next
  case (Cons a xs)
  then show ?case
    by (auto simp: falls_through_def split: sum.splits outcome.splits)
qed

lemma find_resolved:
  assumes "resolve otherchunk (or_empty actrvariables) = Inr q"
  shows "patched_find resolve le self otherchunk actrvariables extra_tests =
         scan le self q (or_empty extra_tests) None (map snd (stimulus self))"
  using assms by (simp add: patched_find_def Let_def)

lemma find_empty_store:
  assumes "resolve otherchunk (or_empty actrvariables) = Inr q" and "stimulus self = []"
  shows "patched_find resolve le self otherchunk actrvariables extra_tests = Inr (None, None)"
  using assms by (simp add: patched_find_def Let_def)

lemma find_all_skipped:
  assumes "resolve otherchunk (or_empty actrvariables) = Inr q"
    and "\<forall>s \<in> set (map snd (stimulus self)).
           candidate le self q (or_empty extra_tests) s = Inr Skip"
  shows "patched_find resolve le self otherchunk actrvariables extra_tests = Inr (None, None)"
  using assms(1) scan_all_skip[OF assms(2)] by (simp add: patched_find_def Let_def)

lemma find_Inr_resolved:
  assumes "patched_find resolve le self otherchunk actrvariables extra_tests = Inr r"
  shows "\<exists>q. resolve otherchunk (or_empty actrvariables) = Inr q \<and>
             scan le self q (or_empty extra_tests) None (map snd (stimulus self)) = Inr r"
  using assms by (auto simp: patched_find_def Let_def split: sum.splits)

lemma int_of_str_nonempty: "int_of_str v = Some n \<Longrightarrow> v \<noteq> []"
  by (auto simp: int_of_str_def strip_def)

lemma coordinate_skip_parsed:
  assumes "int_of_str v = Some n"
  shows "coordinate_skip (Varval (Some v)) p = Inr (n \<noteq> p)"
  using assms int_of_str_nonempty[OF assms]
  by (simp add: coordinate_skip_def coordinate_test_def swallow_def)


lemma keys_update: "fst ` set (AList.update k v al) = insert k (fst ` set al)"
  by (induction al) auto

lemma keys_filtered: "fst ` set (filtered stim) = fst ` set stim - reserved"
  by (auto simp: filtered_def image_iff)

lemma location_chunk_keys:
  "fst ` set (slots (location_chunk (makechunk n t (filtered stim)) x y)) =
     {''screen_x'', ''screen_y''} \<union> (fst ` set stim - reserved)"
  by (auto simp: location_chunk_def makechunk_def asdict_def keys_update keys_filtered)

lemma location_chunk_coordinates:
  "map_of (slots (location_chunk vc x y)) ''screen_x'' = Some (PInt x) \<and>
   map_of (slots (location_chunk vc x y)) ''screen_y'' = Some (PInt y)"
  by (simp add: location_chunk_def update_conv')

lemma get_position_errors:
  assumes "get_position stim = Inl e"
  shows "e \<in> {KeyError, ValueError, TypeError, IndexError}"
proof -
  have sub: "\<And>p i e. subscript p i = Inl e \<Longrightarrow> e = IndexError \<or> e = TypeError"
    by (auto elim!: subscript.elims split: option.splits)
  have pint: "\<And>a e. py_int a = Inl e \<Longrightarrow> e = ValueError \<or> e = TypeError"
    by (auto elim!: py_int.elims split: option.splits)
  from assms show ?thesis
    by (auto simp: get_position_def split: option.splits sum.splits dest: sub pint)
qed

section \<open>Claims about the visual search\<close>

text \<open>
  Claim C1: when no stimulus of the store yields a successful compatibility match,
  \<open>find\<close> returns \<open>(None, None)\<close>. The routine assigns \<open>found_stim\<close> before the
  compatibility test: with a store whose only stimulus passes the filters and fails the
  test, the location chunk is \<open>None\<close> and the raw stimulus is that stimulus.
\<close>

theorem find_rejected_stimulus_returned:
  "spec_le (makechunk ''vis1'' ''_visuallocation'' (filtered stim_red)) query_blue = Inr False \<and>
   patched_find resolved spec_le
     \<lparr>stimulus = [(''s0'', stim_red)], finst = PInt 4, recent = []\<rparr> query_blue None None
   = Inr (None, Some stim_red)"
  by (simp add: find_defs example_defs int_defs)

text \<open>
  Claim C2: when \<open>extra_tests["attended"]\<close> is \<open>False\<close> (or \<open>"False"\<close>) and the FINST
  count is set, a stimulus that \<open>find\<close> returns is never one that is in the history of
  recently attended stimuli.
\<close>

theorem unattended_request_excludes_history:
  assumes "in_False (attended_flag (or_empty extra_tests))"
    and "py_truthy (finst self)"
    and "patched_find resolve le self otherchunk actrvariables extra_tests
           = Inr (found, Some stim)"
  shows "\<not> dict_in stim (recent self)"
proof -
  from find_Inr_resolved[OF assms(3)] obtain q where
    sc: "scan le self q (or_empty extra_tests) None (map snd (stimulus self))
           = Inr (found, Some stim)"
    by blast
  from scan_found_stim[OF sc] have "\<not> attention_skip self (or_empty extra_tests) stim"
    by simp
  with assms(1,2) show ?thesis
    by (simp add: attention_skip_def Let_def)
qed

text \<open>The first blue stimulus is in the history, so the search returns the second one.\<close>

theorem unattended_request_excludes_history_witness:
  "in_False (attended_flag (or_empty (Some unattended))) \<and>
   py_truthy (finst (example_self\<lparr>recent := [stim_blue]\<rparr>)) \<and>
   patched_find resolved spec_le (example_self\<lparr>recent := [stim_blue]\<rparr>) query_blue None
     (Some unattended)
     = Inr (Some (Chunk ''_visuallocation''
                   [(''color'', PStr ''blue''), (''screen_x'', PInt 7), (''screen_y'', PInt 8)]),
            Some stim_blue_late) \<and>
   dict_in stim_blue (recent (example_self\<lparr>recent := [stim_blue]\<rparr>)) \<and>
   \<not> dict_in stim_blue_late (recent (example_self\<lparr>recent := [stim_blue]\<rparr>))"
proof -
  have h1: "in_False (attended_flag (or_empty (Some unattended)))"
    by (simp add: find_defs example_defs)
  have h2: "py_truthy (finst (example_self\<lparr>recent := [stim_blue]\<rparr>))"
    by (simp add: example_defs)
  have h3: "patched_find resolved spec_le (example_self\<lparr>recent := [stim_blue]\<rparr>) query_blue
              None (Some unattended)
     = Inr (Some (Chunk ''_visuallocation''
                   [(''color'', PStr ''blue''), (''screen_x'', PInt 7), (''screen_y'', PInt 8)]),
            Some stim_blue_late)"
    by (simp add: find_defs example_defs int_defs)
  have h4: "dict_in stim_blue (recent (example_self\<lparr>recent := [stim_blue]\<rparr>))"
    by (simp add: find_defs example_defs)
  have c: "\<not> dict_in stim_blue_late (recent (example_self\<lparr>recent := [stim_blue]\<rparr>))"
    by (rule unattended_request_excludes_history[OF h1 h2 h3])
  from h1 h2 h3 h4 c show ?thesis by blast
qed

text \<open>
  Claim C3: when the slots \<open>screen_x\<close> and \<open>screen_y\<close> of the resolved request hold
  strings that \<open>int\<close> accepts, the location chunk \<open>find\<close> returns has exactly these
  integers as \<open>screen_x\<close> and \<open>screen_y\<close>, and they are the position of the returned
  stimulus.
\<close>

theorem screen_coordinates_exact:
  assumes "resolve otherchunk (or_empty actrvariables) = Inr q"
    and "screen_x_slot q = Varval (Some vx)" and "int_of_str vx = Some x"
    and "screen_y_slot q = Varval (Some vy)" and "int_of_str vy = Some y"
    and "patched_find resolve le self otherchunk actrvariables extra_tests
           = Inr (Some loc, found_stim)"
  shows "map_of (slots loc) ''screen_x'' = Some (PInt x) \<and>
         map_of (slots loc) ''screen_y'' = Some (PInt y) \<and>
         (\<exists>stim. found_stim = Some stim \<and> get_position stim = Inr (x, y))"
proof -
  from assms(6) find_resolved[of resolve otherchunk actrvariables q, OF assms(1)] have
    "scan le self q (or_empty extra_tests) None (map snd (stimulus self))
       = Inr (Some loc, found_stim)"
    by simp
  from scan_found[OF this] obtain s where
    m: "candidate le self q (or_empty extra_tests) s = Inr (Match loc s)"
    and fs: "found_stim = Some s"
    by blast
  from candidate_Match[OF m] obtain px py where
    pos: "get_position s = Inr (px, py)"
    and cx: "coordinate_skip (screen_x_slot q) px = Inr False"
    and cy: "coordinate_skip (screen_y_slot q) py = Inr False"
    and loc: "loc = location_chunk (makechunk ''vis1'' ''_visuallocation'' (filtered s)) px py"
    by blast
  from cx assms(2) coordinate_skip_parsed[OF assms(3), of px] have "px = x" by simp
  moreover from cy assms(4) coordinate_skip_parsed[OF assms(5), of py] have "py = y" by simp
  ultimately show ?thesis
    using pos fs loc location_chunk_coordinates by simp
qed

text \<open>A request for a blue stimulus at (5, 5).\<close>

theorem screen_coordinates_exact_witness:
  "resolved query_blue_at_5_5 (or_empty None) = Inr query_blue_at_5_5 \<and>
   screen_x_slot query_blue_at_5_5 = Varval (Some ''5'') \<and> int_of_str ''5'' = Some 5 \<and>
   screen_y_slot query_blue_at_5_5 = Varval (Some '' +5'') \<and> int_of_str '' +5'' = Some 5 \<and>
   patched_find resolved spec_le example_self query_blue_at_5_5 None None
     = Inr (Some (Chunk ''_visuallocation''
                   [(''color'', PStr ''blue''), (''screen_x'', PInt 5), (''screen_y'', PInt 5)]),
            Some stim_blue) \<and>
   map_of (slots (Chunk ''_visuallocation''
                   [(''color'', PStr ''blue''), (''screen_x'', PInt 5), (''screen_y'', PInt 5)]))
     ''screen_x'' = Some (PInt 5)"
proof -
  have h1: "resolved query_blue_at_5_5 (or_empty None) = Inr query_blue_at_5_5"
    by (simp add: resolved_def)
  have h2: "screen_x_slot query_blue_at_5_5 = Varval (Some ''5'')"
    by (simp add: query_blue_at_5_5_def)
  have h3: "int_of_str ''5'' = Some 5" by (simp add: int_defs)
  have h4: "screen_y_slot query_blue_at_5_5 = Varval (Some '' +5'')"
    by (simp add: query_blue_at_5_5_def)
  have h5: "int_of_str '' +5'' = Some 5" by (simp add: int_defs)
  have h6: "patched_find resolved spec_le example_self query_blue_at_5_5 None None
     = Inr (Some (Chunk ''_visuallocation''
                   [(''color'', PStr ''blue''), (''screen_x'', PInt 5), (''screen_y'', PInt 5)]),
            Some stim_blue)"
    by (simp add: find_defs example_defs int_defs)
  from screen_coordinates_exact[of resolved query_blue_at_5_5 None query_blue_at_5_5,
      OF h1 h2 h3 h4 h5 h6] have
    c: "map_of (slots (Chunk ''_visuallocation''
                   [(''color'', PStr ''blue''), (''screen_x'', PInt 5), (''screen_y'', PInt 5)]))
     ''screen_x'' = Some (PInt 5)"
    by blast
  from h1 h2 h3 h4 h5 h6 c show ?thesis by blast
qed

text \<open>
  Claim C4, as stated: when two stimuli \<open>A\<close> and \<open>B\<close> of the store both pass all
  filters and the compatibility test and \<open>A\<close> comes before \<open>B\<close>, \<open>find\<close> returns the
  result derived from \<open>A\<close>. In the store below a stimulus without a position comes first:
  both blue stimuli match, and the call raises \<open>KeyError\<close> before it reaches them.
\<close>

theorem earlier_bad_position_preempts_match:
  "map snd (stimulus (example_self\<lparr>stimulus :=
              [(''s0'', stim_no_position), (''s1'', stim_blue), (''s2'', stim_blue_late)]\<rparr>))
     = [stim_no_position, stim_blue, stim_blue_late] \<and>
   candidate spec_le
     (example_self\<lparr>stimulus :=
        [(''s0'', stim_no_position), (''s1'', stim_blue), (''s2'', stim_blue_late)]\<rparr>)
     query_blue (or_empty None) stim_blue
     = Inr (Match (Chunk ''_visuallocation''
                    [(''color'', PStr ''blue''), (''screen_x'', PInt 5), (''screen_y'', PInt 5)])
              stim_blue) \<and>
   candidate spec_le
     (example_self\<lparr>stimulus :=
        [(''s0'', stim_no_position), (''s1'', stim_blue), (''s2'', stim_blue_late)]\<rparr>)
     query_blue (or_empty None) stim_blue_late
     = Inr (Match (Chunk ''_visuallocation''
                    [(''color'', PStr ''blue''), (''screen_x'', PInt 7), (''screen_y'', PInt 8)])
              stim_blue_late) \<and>
   patched_find resolved spec_le
     (example_self\<lparr>stimulus :=
        [(''s0'', stim_no_position), (''s1'', stim_blue), (''s2'', stim_blue_late)]\<rparr>)
     query_blue None None = Inl KeyError"
  by (simp add: find_defs example_defs int_defs)

text \<open>
  Claim C4, amended: when two stimuli \<open>A\<close> and \<open>B\<close> both pass all filters and the
  compatibility test, \<open>A\<close> comes before \<open>B\<close> in the store, and every stimulus before
  \<open>A\<close> is skipped or rejected without raising, \<open>find\<close> returns the location chunk and
  the raw stimulus of \<open>A\<close>, whatever stands between and after \<open>A\<close> and \<open>B\<close>.
\<close>

theorem first_match_wins:
  assumes "resolve otherchunk (or_empty actrvariables) = Inr q"
    and "map snd (stimulus self) = pre @ A # mid @ B # post"
    and "\<forall>s \<in> set pre. falls_through (candidate le self q (or_empty extra_tests) s)"
    and "candidate le self q (or_empty extra_tests) A = Inr (Match a A)"
    and "candidate le self q (or_empty extra_tests) B = Inr (Match b B)"
  shows "patched_find resolve le self otherchunk actrvariables extra_tests
           = Inr (Some a, Some A)"
proof -
  from scan_prefix[OF assms(3)] obtain fs' where
    "scan le self q (or_empty extra_tests) None (pre @ A # mid @ B # post)
       = scan le self q (or_empty extra_tests) fs' (A # mid @ B # post)"
    by blast
  with assms(4) have
    "scan le self q (or_empty extra_tests) None (pre @ A # mid @ B # post)
       = Inr (Some a, Some A)"
    by simp
  with find_resolved[of resolve otherchunk actrvariables q, OF assms(1)] assms(2) show ?thesis by simp
qed

text \<open>A red stimulus that is rejected, then two blue ones.\<close>

theorem first_match_wins_witness:
  "resolved query_blue (or_empty None) = Inr query_blue \<and>
   map snd (stimulus example_self) = [stim_red] @ stim_blue # [] @ stim_blue_late # [] \<and>
   falls_through (candidate spec_le example_self query_blue (or_empty None) stim_red) \<and>
   candidate spec_le example_self query_blue (or_empty None) stim_blue
     = Inr (Match (Chunk ''_visuallocation''
                    [(''color'', PStr ''blue''), (''screen_x'', PInt 5), (''screen_y'', PInt 5)])
              stim_blue) \<and>
   candidate spec_le example_self query_blue (or_empty None) stim_blue_late
     = Inr (Match (Chunk ''_visuallocation''
                    [(''color'', PStr ''blue''), (''screen_x'', PInt 7), (''screen_y'', PInt 8)])
              stim_blue_late) \<and>
   patched_find resolved spec_le example_self query_blue None None
     = Inr (Some (Chunk ''_visuallocation''
                   [(''color'', PStr ''blue''), (''screen_x'', PInt 5), (''screen_y'', PInt 5)]),
            Some stim_blue)"
proof -
  have h1: "resolved query_blue (or_empty None) = Inr query_blue"
    by (simp add: resolved_def)
  have h2: "map snd (stimulus example_self) = [stim_red] @ stim_blue # [] @ stim_blue_late # []"
    by (simp add: example_self_def)
  have h3: "\<forall>s \<in> set [stim_red].
      falls_through (candidate spec_le example_self query_blue (or_empty None) s)"
    by (simp add: find_defs example_defs int_defs)
  have h4: "candidate spec_le example_self query_blue (or_empty None) stim_blue
     = Inr (Match (Chunk ''_visuallocation''
                    [(''color'', PStr ''blue''), (''screen_x'', PInt 5), (''screen_y'', PInt 5)])
              stim_blue)"
    by (simp add: find_defs example_defs int_defs)
  have h5: "candidate spec_le example_self query_blue (or_empty None) stim_blue_late
     = Inr (Match (Chunk ''_visuallocation''
                    [(''color'', PStr ''blue''), (''screen_x'', PInt 7), (''screen_y'', PInt 8)])
              stim_blue_late)"
    by (simp add: find_defs example_defs int_defs)
  have c: "patched_find resolved spec_le example_self query_blue None None
     = Inr (Some (Chunk ''_visuallocation''
                   [(''color'', PStr ''blue''), (''screen_x'', PInt 5), (''screen_y'', PInt 5)]),
            Some stim_blue)"
    by (rule first_match_wins[of resolved query_blue None query_blue, OF h1 h2 h3 h4 h5])
  have h3': "falls_through (candidate spec_le example_self query_blue (or_empty None) stim_red)"
    using h3 by simp
  from h1 h2 h3' h4 h5 c show ?thesis by simp
qed

text \<open>
  Claim C5: the location chunk of a successful search has none of the reserved names
  \<open>position\<close>, \<open>text\<close> and \<open>vis_delay\<close> among its keys: its keys are the
  non-reserved keys of the stimulus together with \<open>screen_x\<close> and \<open>screen_y\<close>, which
  hold the integer position of the stimulus.
\<close>

theorem location_chunk_has_no_reserved_keys:
  assumes "patched_find resolve le self otherchunk actrvariables extra_tests
             = Inr (Some loc, found_stim)"
  shows "''position'' \<notin> fst ` set (slots loc) \<and> ''text'' \<notin> fst ` set (slots loc) \<and>
         ''vis_delay'' \<notin> fst ` set (slots loc) \<and>
         (\<exists>stim x y. found_stim = Some stim \<and> get_position stim = Inr (x, y) \<and>
            fst ` set (slots loc) = {''screen_x'', ''screen_y''} \<union> (fst ` set stim - reserved) \<and>
            map_of (slots loc) ''screen_x'' = Some (PInt x) \<and>
            map_of (slots loc) ''screen_y'' = Some (PInt y))"
proof -
  from find_Inr_resolved[OF assms] obtain q where
    "scan le self q (or_empty extra_tests) None (map snd (stimulus self))
       = Inr (Some loc, found_stim)"
    by blast
  from scan_found[OF this] obtain s where
    m: "candidate le self q (or_empty extra_tests) s = Inr (Match loc s)"
    and fs: "found_stim = Some s"
    by blast
  from candidate_Match[OF m] obtain x y where
    pos: "get_position s = Inr (x, y)"
    and loc: "loc = location_chunk (makechunk ''vis1'' ''_visuallocation'' (filtered s)) x y"
    by blast
  have keys: "fst ` set (slots loc) = {''screen_x'', ''screen_y''} \<union> (fst ` set s - reserved)"
    unfolding loc by (rule location_chunk_keys)
  have "''position'' \<notin> fst ` set (slots loc)" "''text'' \<notin> fst ` set (slots loc)"
    "''vis_delay'' \<notin> fst ` set (slots loc)"
    unfolding keys by (simp_all add: reserved_def)
  moreover have "map_of (slots loc) ''screen_x'' = Some (PInt x)"
    "map_of (slots loc) ''screen_y'' = Some (PInt y)"
    unfolding loc using location_chunk_coordinates by simp_all
  ultimately show ?thesis using fs pos keys by blast
qed

text \<open>The matched stimulus has a text, the location chunk has not.\<close>

theorem location_chunk_has_no_reserved_keys_witness:
  "patched_find resolved spec_le example_self query_blue None None
     = Inr (Some (Chunk ''_visuallocation''
                   [(''color'', PStr ''blue''), (''screen_x'', PInt 5), (''screen_y'', PInt 5)]),
            Some stim_blue) \<and>
   ''text'' \<in> fst ` set stim_blue \<and>
   ''text'' \<notin> fst ` set (slots (Chunk ''_visuallocation''
                   [(''color'', PStr ''blue''), (''screen_x'', PInt 5), (''screen_y'', PInt 5)]))"
proof -
  have h: "patched_find resolved spec_le example_self query_blue None None
     = Inr (Some (Chunk ''_visuallocation''
                   [(''color'', PStr ''blue''), (''screen_x'', PInt 5), (''screen_y'', PInt 5)]),
            Some stim_blue)"
    by (simp add: find_defs example_defs int_defs)
  have t: "''text'' \<in> fst ` set stim_blue" by (simp add: stim_blue_def)
  from location_chunk_has_no_reserved_keys[OF h] have
    c: "''text'' \<notin> fst ` set (slots (Chunk ''_visuallocation''
                   [(''color'', PStr ''blue''), (''screen_x'', PInt 5), (''screen_y'', PInt 5)]))"
    by blast
  from h t c show ?thesis by blast
qed

subsection \<open>The call leaves the object as it was\<close>

text \<open>
  No iteration assigns to the object, so the object after the loop is the object before it,
  whether the loop ends normally, with \<open>break\<close> or with an exception.
\<close>

lemma iteration_self_obj:
  assumes "iteration le q et each f = Inr (b, f')"
  shows "self_obj f' = self_obj f"
  using assms
  by (auto simp: iteration_def split: option.splits sum.splits outcome.splits)

lemma for_each_self_obj: "self_obj (snd (for_each le q et f keys)) = self_obj f"
proof (induction keys arbitrary: f)
  case Nil
  then show ?case by simp
next
  case (Cons each keys)
  show ?case
  proof (cases "iteration le q et each f")
    case (Inl e)
    then show ?thesis by simp
  next
    case (Inr r)
    obtain b f' where r: "r = (b, f')" by (cases r)
    from iteration_self_obj[of le q et each f b f'] Inr r have "self_obj f' = self_obj f"
      by simp
    with Inr r Cons.IH[of f'] show ?thesis by (cases b) simp_all
  qed
qed

lemma call_leaves_object:
  "snd (call_patched_find resolve le self otherchunk actrvariables extra_tests) = self"
proof (cases "resolve otherchunk (or_empty actrvariables)")
  case (Inl e)
  then show ?thesis by (simp add: call_patched_find_def Let_def)
next
  case (Inr q)
  let ?r = "for_each le q (or_empty extra_tests)
              \<lparr>self_obj = self, frame_found = None, frame_found_stim = None\<rparr>
              (map fst (stimulus self))"
  have "self_obj (snd ?r) = self" using for_each_self_obj[of le q "or_empty extra_tests"
      "\<lparr>self_obj = self, frame_found = None, frame_found_stim = None\<rparr>" "map fst (stimulus self)"]
    by simp
  with Inr show ?thesis
    by (cases ?r) (auto simp: call_patched_find_def Let_def split: option.splits)
qed

text \<open>
  On a store with distinct keys, as every dictionary has them, the call returns or raises
  what \<open>patched_find\<close> computes from the values of the store.
\<close>

lemma for_each_scan:
  assumes "\<forall>(k, v) \<in> set kvs. map_of (stimulus (self_obj f)) k = Some v"
    and "frame_found f = None"
  shows "(\<forall>e. scan le (self_obj f) q et (frame_found_stim f) (map snd kvs) = Inl e \<longrightarrow>
              fst (for_each le q et f (map fst kvs)) = Some e) \<and>
         (\<forall>c s. scan le (self_obj f) q et (frame_found_stim f) (map snd kvs) = Inr (c, s) \<longrightarrow>
              (\<exists>f'. for_each le q et f (map fst kvs) = (None, f') \<and>
                    frame_found f' = c \<and> frame_found_stim f' = s))"
  using assms
proof (induction kvs arbitrary: f)
  case Nil
  then show ?case by simp
next
  case (Cons kv kvs)
  obtain k v where kv: "kv = (k, v)" by (cases kv)
  from Cons.prems(1) kv have look: "map_of (stimulus (self_obj f)) k = Some v" by simp
  show ?case
  proof (cases "candidate le (self_obj f) q et v")
    case (Inl e)
    with look kv show ?thesis by (simp add: iteration_def)
  next
    case (Inr out)
    show ?thesis
    proof (cases out)
      case Skip
      from Cons.IH[of f] Cons.prems kv Inr Skip look show ?thesis
        by (simp add: iteration_def)
    next
      case (Reject t)
      from Cons.IH[of "f\<lparr>frame_found_stim := Some t\<rparr>"] Cons.prems kv Inr Reject look
      show ?thesis by (simp add: iteration_def)
    next
      case (Match c t)
      with Inr look kv show ?thesis by (simp add: iteration_def)
    qed
  qed
qed

lemma call_agrees:
  assumes "distinct (map fst (stimulus self))"
  shows "fst (call_patched_find resolve le self otherchunk actrvariables extra_tests)
           = patched_find resolve le self otherchunk actrvariables extra_tests"
proof (cases "resolve otherchunk (or_empty actrvariables)")
  case (Inl e)
  then show ?thesis by (simp add: call_patched_find_def patched_find_def Let_def)
next
  case (Inr q)
  let ?f0 = "\<lparr>self_obj = self, frame_found = None, frame_found_stim = None\<rparr>"
  let ?sc = "scan le self q (or_empty extra_tests) None (map snd (stimulus self))"
  let ?fe = "for_each le q (or_empty extra_tests) ?f0 (map fst (stimulus self))"
  from assms have "\<forall>(k, v) \<in> set (stimulus self). map_of (stimulus (self_obj ?f0)) k = Some v"
    by auto
  from for_each_scan[OF this, of le q "or_empty extra_tests"] have
    fs: "(\<forall>e. ?sc = Inl e \<longrightarrow> fst ?fe = Some e) \<and>
         (\<forall>c s. ?sc = Inr (c, s) \<longrightarrow>
            (\<exists>f'. ?fe = (None, f') \<and> frame_found f' = c \<and> frame_found_stim f' = s))"
    by simp
  have pf: "patched_find resolve le self otherchunk actrvariables extra_tests = ?sc"
    using Inr by (simp add: patched_find_def Let_def)
  have cf: "fst (call_patched_find resolve le self otherchunk actrvariables extra_tests)
              = (case ?fe of (Some e, f) \<Rightarrow> Inl e
                 | (None, f) \<Rightarrow> Inr (frame_found f, frame_found_stim f))"
    using Inr by (simp add: call_patched_find_def Let_def split: prod.splits option.splits)
  show ?thesis
  proof (cases ?sc)
    case (Inl e)
    with fs have "fst ?fe = Some e" by blast
    then obtain f where "?fe = (Some e, f)" by (cases ?fe) auto
    with cf pf Inl show ?thesis by simp
  next
    case (Inr r)
    obtain c s where r: "r = (c, s)" by (cases r)
    with Inr fs obtain f' where "?fe = (None, f')" "frame_found f' = c" "frame_found_stim f' = s"
      by blast
    with cf pf Inr r show ?thesis by simp
  qed
qed

text \<open>
  Claim C6: two calls of \<open>find\<close> in a row, with the same request, bindings and extra
  tests, give the same result: the first call leaves the object (store, FINST count and
  history) as it found it, so the second call starts from the same state and returns or
  raises the same; on a store with distinct keys this result is the one \<open>patched_find\<close>
  gives.
\<close>

theorem find_deterministic:
  "snd (call_patched_find resolve le self otherchunk actrvariables extra_tests) = self \<and>
   fst (call_patched_find resolve le
          (snd (call_patched_find resolve le self otherchunk actrvariables extra_tests))
          otherchunk actrvariables extra_tests)
     = fst (call_patched_find resolve le self otherchunk actrvariables extra_tests) \<and>
   (distinct (map fst (stimulus self)) \<longrightarrow>
      fst (call_patched_find resolve le self otherchunk actrvariables extra_tests)
        = patched_find resolve le self otherchunk actrvariables extra_tests)"
  using call_leaves_object[of resolve le self otherchunk actrvariables extra_tests]
    call_agrees[of self resolve le otherchunk actrvariables extra_tests]
  by simp

text \<open>The call on the example object returns the first blue stimulus and the object unchanged.\<close>

theorem find_deterministic_witness:
  "distinct (map fst (stimulus example_self)) \<and>
   patched_find resolved spec_le example_self query_blue None None
     = Inr (Some (Chunk ''_visuallocation''
                   [(''color'', PStr ''blue''), (''screen_x'', PInt 5), (''screen_y'', PInt 5)]),
            Some stim_blue) \<and>
   call_patched_find resolved spec_le example_self query_blue None None
     = (Inr (Some (Chunk ''_visuallocation''
                    [(''color'', PStr ''blue''), (''screen_x'', PInt 5), (''screen_y'', PInt 5)]),
             Some stim_blue),
        example_self)"
proof -
  have d: "distinct (map fst (stimulus example_self))"
    by (simp add: example_self_def)
  have p: "patched_find resolved spec_le example_self query_blue None None
     = Inr (Some (Chunk ''_visuallocation''
                   [(''color'', PStr ''blue''), (''screen_x'', PInt 5), (''screen_y'', PInt 5)]),
            Some stim_blue)"
    by (simp add: find_defs example_defs int_defs)
  from find_deterministic[of resolved spec_le example_self query_blue None None] d p
  have "fst (call_patched_find resolved spec_le example_self query_blue None None)
     = Inr (Some (Chunk ''_visuallocation''
                   [(''color'', PStr ''blue''), (''screen_x'', PInt 5), (''screen_y'', PInt 5)]),
            Some stim_blue)"
    and "snd (call_patched_find resolved spec_le example_self query_blue None None) = example_self"
    by simp_all
  then have c: "call_patched_find resolved spec_le example_self query_blue None None
     = (Inr (Some (Chunk ''_visuallocation''
                    [(''color'', PStr ''blue''), (''screen_x'', PInt 5), (''screen_y'', PInt 5)]),
             Some stim_blue),
        example_self)"
    by (simp add: prod_eq_iff)
  from d p c show ?thesis by simp
qed

subsection \<open>Coordinate slots that hold no integer\<close>










subsection \<open>Stimuli with a bad position\<close>







section \<open>Claims about the agent factory\<close>

lemma first_local_loop_none:
  assumes "\<forall>(k, obj) \<in> set ms. \<forall>cn. obj \<noteq> ClassObj cn mn"
  shows "first_local_loop mn ms = NoneObj"
  using assms by (induction mn ms rule: first_local_loop.induct) (auto split: pyobj.splits)

lemma first_local_loop_first:
  assumes "\<forall>(k, obj) \<in> set pre. \<forall>cn. obj \<noteq> ClassObj cn mn"
  shows "first_local_loop mn (pre @ (k, ClassObj cn mn) # post) = ClassObj cn mn"
  using assms by (induction mn pre rule: first_local_loop.induct) (auto split: pyobj.splits)

text \<open>
  Claim C8, as stated: resolution raises \<open>ValueError\<close> whenever a module cannot be
  imported or the expected class is not found in the imported module. In the runner module
  below the class \<open>Example\<close> is missing, and resolution returns the module's first local
  class instead of raising.
\<close>

theorem resolve_expected_class_missing:
  "''Example'' \<noteq> ''Human'' \<and>
   cache example_factory ''Example'' = None \<and>
   example_module ''agents.Example'' = Inr example_runner_module \<and>
   getattr_or_None example_runner_module ''Example'' = NoneObj \<and>
   fst (resolve_agent_classes example_module example_factory ''Example'')
     = Inr (ClassObj ''Runner'' ''agents.Example'',
            ClassObj ''ExampleAdapter'' ''agents.ExampleAdapter'') \<and>
   fst (resolve_agent_classes example_module example_factory ''Example'') \<noteq> Inl ValueError"
  by (simp add: factory_defs Let_def)

text \<open>
  Claim C8, amended: for a name that is not in the cache, resolution raises \<open>ValueError\<close>
  when the import of the runner module or of the adapter module raises \<open>ImportError\<close>
  (any other exception of an import propagates as it is), and when one of the two modules
  has neither an attribute of the expected name nor a class defined in the module itself; the
  factory is unchanged then. When the expected class alone is missing, the first member of
  the module that is a class defined in it is used in its place, and the resolved pair is
  returned and cached.
\<close>

theorem resolve_uncached:
  assumes "cache self name = None"
  shows "(\<forall>exc. import_module (base_package self @ ''.'' @ name) = Inl exc \<longrightarrow>
            resolve_agent_classes import_module self name
              = (Inl (if exc = ImportError then ValueError else exc), self)) \<and>
         (\<forall>runner_module exc.
            import_module (base_package self @ ''.'' @ name) = Inr runner_module \<and>
            import_module (base_package self @ ''.'' @ name @ ''Adapter'') = Inl exc \<longrightarrow>
            resolve_agent_classes import_module self name
              = (Inl (if exc = ImportError then ValueError else exc), self)) \<and>
         (\<forall>runner_module adapter_module.
            import_module (base_package self @ ''.'' @ name) = Inr runner_module \<and>
            import_module (base_package self @ ''.'' @ name @ ''Adapter'') = Inr adapter_module \<and>
            ((getattr_or_None runner_module name = NoneObj \<and>
              (\<forall>(k, obj) \<in> set (members runner_module).
                 \<forall>cn. obj \<noteq> ClassObj cn (mod_name runner_module))) \<or>
             (getattr_or_None adapter_module (name @ ''Adapter'') = NoneObj \<and>
              (\<forall>(k, obj) \<in> set (members adapter_module).
                 \<forall>cn. obj \<noteq> ClassObj cn (mod_name adapter_module)))) \<longrightarrow>
            resolve_agent_classes import_module self name = (Inl ValueError, self)) \<and>
         (\<forall>runner_module adapter_module runner_cls adapter_cls.
            import_module (base_package self @ ''.'' @ name) = Inr runner_module \<and>
            import_module (base_package self @ ''.'' @ name @ ''Adapter'') = Inr adapter_module \<and>
            ((runner_cls \<noteq> NoneObj \<and> getattr_or_None runner_module name = runner_cls) \<or>
             (getattr_or_None runner_module name = NoneObj \<and>
              (\<exists>pre k cn post.
                 members runner_module = pre @ (k, runner_cls) # post \<and>
                 runner_cls = ClassObj cn (mod_name runner_module) \<and>
                 (\<forall>(k', obj) \<in> set pre. \<forall>cn'. obj \<noteq> ClassObj cn' (mod_name runner_module))))) \<and>
            ((adapter_cls \<noteq> NoneObj \<and>
              getattr_or_None adapter_module (name @ ''Adapter'') = adapter_cls) \<or>
             (getattr_or_None adapter_module (name @ ''Adapter'') = NoneObj \<and>
              (\<exists>pre k cn post.
                 members adapter_module = pre @ (k, adapter_cls) # post \<and>
                 adapter_cls = ClassObj cn (mod_name adapter_module) \<and>
                 (\<forall>(k', obj) \<in> set pre.
                    \<forall>cn'. obj \<noteq> ClassObj cn' (mod_name adapter_module))))) \<longrightarrow>
            resolve_agent_classes import_module self name
              = (Inr (runner_cls, adapter_cls),
                 self\<lparr>cache := (cache self)(name \<mapsto> (runner_cls, adapter_cls))\<rparr>))"
proof (intro conjI allI impI)
  fix exc
  assume "import_module (base_package self @ ''.'' @ name) = Inl exc"
  with assms show "resolve_agent_classes import_module self name
              = (Inl (if exc = ImportError then ValueError else exc), self)"
    by (simp add: resolve_agent_classes_def Let_def)
next
  fix runner_module exc
  assume "import_module (base_package self @ ''.'' @ name) = Inr runner_module \<and>
          import_module (base_package self @ ''.'' @ name @ ''Adapter'') = Inl exc"
  with assms show "resolve_agent_classes import_module self name
              = (Inl (if exc = ImportError then ValueError else exc), self)"
    by (simp add: resolve_agent_classes_def Let_def)
next
  fix runner_module adapter_module
  assume a: "import_module (base_package self @ ''.'' @ name) = Inr runner_module \<and>
            import_module (base_package self @ ''.'' @ name @ ''Adapter'') = Inr adapter_module \<and>
            ((getattr_or_None runner_module name = NoneObj \<and>
              (\<forall>(k, obj) \<in> set (members runner_module).
                 \<forall>cn. obj \<noteq> ClassObj cn (mod_name runner_module))) \<or>
             (getattr_or_None adapter_module (name @ ''Adapter'') = NoneObj \<and>
              (\<forall>(k, obj) \<in> set (members adapter_module).
                 \<forall>cn. obj \<noteq> ClassObj cn (mod_name adapter_module))))"
  then have "(getattr_or_None runner_module name = NoneObj \<and>
              first_local_class runner_module = NoneObj) \<or>
             (getattr_or_None adapter_module (name @ ''Adapter'') = NoneObj \<and>
              first_local_class adapter_module = NoneObj)"
    using first_local_loop_none[of "members runner_module" "mod_name runner_module"]
      first_local_loop_none[of "members adapter_module" "mod_name adapter_module"]
    by (auto simp: first_local_class_def)
  with a assms show "resolve_agent_classes import_module self name = (Inl ValueError, self)"
    by (auto simp: resolve_agent_classes_def Let_def)
next
  fix runner_module adapter_module runner_cls adapter_cls
  assume a: "import_module (base_package self @ ''.'' @ name) = Inr runner_module \<and>
            import_module (base_package self @ ''.'' @ name @ ''Adapter'') = Inr adapter_module \<and>
            ((runner_cls \<noteq> NoneObj \<and> getattr_or_None runner_module name = runner_cls) \<or>
             (getattr_or_None runner_module name = NoneObj \<and>
              (\<exists>pre k cn post.
                 members runner_module = pre @ (k, runner_cls) # post \<and>
                 runner_cls = ClassObj cn (mod_name runner_module) \<and>
                 (\<forall>(k', obj) \<in> set pre. \<forall>cn'. obj \<noteq> ClassObj cn' (mod_name runner_module))))) \<and>
            ((adapter_cls \<noteq> NoneObj \<and>
              getattr_or_None adapter_module (name @ ''Adapter'') = adapter_cls) \<or>
             (getattr_or_None adapter_module (name @ ''Adapter'') = NoneObj \<and>
              (\<exists>pre k cn post.
                 members adapter_module = pre @ (k, adapter_cls) # post \<and>
                 adapter_cls = ClassObj cn (mod_name adapter_module) \<and>
                 (\<forall>(k', obj) \<in> set pre.
                    \<forall>cn'. obj \<noteq> ClassObj cn' (mod_name adapter_module)))))"
  have r: "(if getattr_or_None runner_module name = NoneObj
            then first_local_class runner_module
            else getattr_or_None runner_module name) = runner_cls \<and> runner_cls \<noteq> NoneObj"
    using a first_local_loop_first[of _ "mod_name runner_module"]
    by (auto simp: first_local_class_def)
  have d: "(if getattr_or_None adapter_module (name @ ''Adapter'') = NoneObj
            then first_local_class adapter_module
            else getattr_or_None adapter_module (name @ ''Adapter'')) = adapter_cls \<and>
           adapter_cls \<noteq> NoneObj"
    using a first_local_loop_first[of _ "mod_name adapter_module"]
    by (auto simp: first_local_class_def)
  from a assms r d show "resolve_agent_classes import_module self name
              = (Inr (runner_cls, adapter_cls),
                 self\<lparr>cache := (cache self)(name \<mapsto> (runner_cls, adapter_cls))\<rparr>)"
    by (simp add: resolve_agent_classes_def Let_def)
qed

text \<open>
  The runner class of \<open>Example\<close> is the first local class \<open>Runner\<close>, after a class
  imported from elsewhere; \<open>Missing\<close> cannot be imported; the exception of \<open>Broken\<close>
  propagates.
\<close>

theorem resolve_uncached_witness:
  "cache example_factory ''Example'' = None \<and>
   example_module (base_package example_factory @ ''.'' @ ''Example'')
     = Inr example_runner_module \<and>
   example_module (base_package example_factory @ ''.'' @ ''Example'' @ ''Adapter'')
     = Inr example_adapter_module \<and>
   getattr_or_None example_runner_module ''Example'' = NoneObj \<and>
   members example_runner_module
     = [(''Any'', ClassObj ''Any'' ''typing'')]
       @ (''Runner'', ClassObj ''Runner'' (mod_name example_runner_module))
       # [(''Worker'', ClassObj ''Worker'' ''agents.Example''),
          (''__name__'', OtherObj ''agents.Example'')] \<and>
   getattr_or_None example_adapter_module (''Example'' @ ''Adapter'')
     = ClassObj ''ExampleAdapter'' ''agents.ExampleAdapter'' \<and>
   resolve_agent_classes example_module example_factory ''Example''
     = (Inr (ClassObj ''Runner'' (mod_name example_runner_module),
             ClassObj ''ExampleAdapter'' ''agents.ExampleAdapter''),
        example_factory\<lparr>cache := (cache example_factory)
          (''Example'' \<mapsto> (ClassObj ''Runner'' (mod_name example_runner_module),
                           ClassObj ''ExampleAdapter'' ''agents.ExampleAdapter''))\<rparr>) \<and>
   cache example_factory ''Missing'' = None \<and>
   example_module (base_package example_factory @ ''.'' @ ''Missing'') = Inl ImportError \<and>
   resolve_agent_classes example_module example_factory ''Missing''
     = (Inl ValueError, example_factory) \<and>
   cache example_factory ''Broken'' = None \<and>
   example_module (base_package example_factory @ ''.'' @ ''Broken'')
     = Inl (OtherError ''SyntaxError'') \<and>
   resolve_agent_classes example_module example_factory ''Broken''
     = (Inl (OtherError ''SyntaxError''), example_factory)"
proof -
  have c1: "cache example_factory ''Example'' = None"
    and c2: "cache example_factory ''Missing'' = None"
    and c3: "cache example_factory ''Broken'' = None"
    by (simp_all add: example_factory_def)
  have m1: "example_module (base_package example_factory @ ''.'' @ ''Example'')
     = Inr example_runner_module"
    and m2: "example_module (base_package example_factory @ ''.'' @ ''Example'' @ ''Adapter'')
     = Inr example_adapter_module"
    and m3: "example_module (base_package example_factory @ ''.'' @ ''Missing'') = Inl ImportError"
    and m4: "example_module (base_package example_factory @ ''.'' @ ''Broken'')
     = Inl (OtherError ''SyntaxError'')"
    by (simp_all add: example_module_def example_factory_def)
  have g1: "getattr_or_None example_runner_module ''Example'' = NoneObj"
    by (simp add: getattr_or_None_def example_runner_module_def)
  have s1: "members example_runner_module
     = [(''Any'', ClassObj ''Any'' ''typing'')]
       @ (''Runner'', ClassObj ''Runner'' (mod_name example_runner_module))
       # [(''Worker'', ClassObj ''Worker'' ''agents.Example''),
          (''__name__'', OtherObj ''agents.Example'')]"
    by (simp add: example_runner_module_def)
  have p1: "\<forall>(k', obj) \<in> set [(''Any'', ClassObj ''Any'' ''typing'')].
              \<forall>cn'. obj \<noteq> ClassObj cn' (mod_name example_runner_module)"
    by (simp add: example_runner_module_def)
  have g2: "getattr_or_None example_adapter_module (''Example'' @ ''Adapter'')
     = ClassObj ''ExampleAdapter'' ''agents.ExampleAdapter''"
    by (simp add: getattr_or_None_def example_adapter_module_def)
  have runner: "getattr_or_None example_runner_module ''Example'' = NoneObj \<and>
      (\<exists>pre k cn post.
         members example_runner_module
           = pre @ (k, ClassObj ''Runner'' (mod_name example_runner_module)) # post \<and>
         ClassObj ''Runner'' (mod_name example_runner_module)
           = ClassObj cn (mod_name example_runner_module) \<and>
         (\<forall>(k', obj) \<in> set pre. \<forall>cn'. obj \<noteq> ClassObj cn' (mod_name example_runner_module)))"
    using g1 s1 p1 by blast
  from resolve_uncached[OF c1, of example_module] m1 m2 runner g2
  have r1: "resolve_agent_classes example_module example_factory ''Example''
     = (Inr (ClassObj ''Runner'' (mod_name example_runner_module),
             ClassObj ''ExampleAdapter'' ''agents.ExampleAdapter''),
        example_factory\<lparr>cache := (cache example_factory)
          (''Example'' \<mapsto> (ClassObj ''Runner'' (mod_name example_runner_module),
                           ClassObj ''ExampleAdapter'' ''agents.ExampleAdapter''))\<rparr>)"
    by (auto simp del: append.simps)
  from resolve_uncached[OF c2, of example_module] m3
  have r2: "resolve_agent_classes example_module example_factory ''Missing''
     = (Inl ValueError, example_factory)"
    by simp
  from resolve_uncached[OF c3, of example_module] m4
  have r3: "resolve_agent_classes example_module example_factory ''Broken''
     = (Inl (OtherError ''SyntaxError''), example_factory)"
    by simp
  from c1 m1 m2 g1 s1 g2 r1 c2 m3 r2 c3 m4 r3 show ?thesis by blast
qed

section \<open>Claims about the level builder\<close>

lemma py_index_in_range: "0 \<le> i \<Longrightarrow> i < int n \<Longrightarrow> py_index n i = Some (nat i)"
  by (simp add: py_index_def)

lemma place_in_range:
  assumes "length matrix = H"
    and "\<forall>row \<in> set matrix. length row = W"
    and "\<forall>(a, (r, c)) \<in> set ps. 0 \<le> r \<and> r < int H \<and> 0 \<le> c \<and> c < int W"
  shows "\<exists>m'. place matrix ps = Inr m' \<and> length m' = H \<and> (\<forall>row \<in> set m'. length row = W)"
  using assms
proof (induction ps arbitrary: matrix)
  case Nil
  then show ?case by simp
next
  case (Cons p ps)
  obtain a r c where p: "p = (a, (r, c))" by (cases p) auto
  from Cons.prems(3) p have rng: "0 \<le> r" "r < int H" "0 \<le> c" "c < int W" by auto
  from rng Cons.prems(1) have ir: "py_index (length matrix) r = Some (nat r)"
    by (simp add: py_index_in_range)
  from rng Cons.prems(1) have "nat r < length matrix" by simp
  then have "matrix ! nat r \<in> set matrix" by simp
  with Cons.prems(2) have lr: "length (matrix ! nat r) = W" by blast
  with rng have ic: "py_index (length (matrix ! nat r)) c = Some (nat c)"
    by (simp add: py_index_in_range)
  let ?m = "matrix[nat r := (matrix ! nat r)[nat c := Some a]]"
  have l: "length ?m = H" using Cons.prems(1) by simp
  have rows: "\<forall>row \<in> set ?m. length row = W"
  proof
    fix row assume "row \<in> set ?m"
    then have "row = (matrix ! nat r)[nat c := Some a] \<or> row \<in> set matrix"
      using set_update_subset_insert[of matrix "nat r" "(matrix ! nat r)[nat c := Some a]"]
      by auto
    with lr Cons.prems(2) show "length row = W" by auto
  qed
  from Cons.prems(3) have rest: "\<forall>(a, (r, c)) \<in> set ps. 0 \<le> r \<and> r < int H \<and> 0 \<le> c \<and> c < int W"
    by simp
  from Cons.IH[OF l rows rest] p ir ic show ?case by simp
qed

lemma grid_coords:
  "set (concat (map (\<lambda>r. map (\<lambda>c. (r, c)) [0..w - 1]) [0..h - 1]))
     = {(r, c). 0 \<le> r \<and> r < h \<and> 0 \<le> c \<and> c < w}"
  by auto

text \<open>
  Claim C9: \<open>build_level\<close> raises \<open>ValueError\<close> if and only if \<open>height <= 0\<close> or
  \<open>width <= 0\<close> or \<open>len(agents) > height * width\<close>; in that case no matrix is produced,
  and otherwise a matrix of \<open>height\<close> rows and \<open>width\<close> columns is returned.
\<close>

theorem build_level_raises_iff:
  assumes "\<forall>cs. mset (shuffle cs) = mset cs"
  shows "(build_level height width agents shuffle = Inl ValueError)
           = (height \<le> 0 \<or> width \<le> 0 \<or> int (length agents) > height * width) \<and>
         (\<not> (height \<le> 0 \<or> width \<le> 0 \<or> int (length agents) > height * width) \<longrightarrow>
            (\<exists>matrix. build_level height width agents shuffle = Inr matrix \<and>
                length matrix = nat height \<and> (\<forall>row \<in> set matrix. length row = nat width)))"
proof (cases "height \<le> 0 \<or> width \<le> 0 \<or> int (length agents) > height * width")
  case True
  then show ?thesis by (auto simp: build_level_def Let_def)
next
  case False
  let ?coords = "concat (map (\<lambda>r. map (\<lambda>c. (r, c)) [0..width - 1]) [0..height - 1])"
  let ?ps = "zip agents (take (nat (int (length agents))) (shuffle ?coords))"
  let ?m0 = "replicate (nat height) (replicate (nat width) (None :: 'a option))"
  from assms have "set (shuffle ?coords) = set ?coords"
    by (metis mset_eq_setD)
  then have sh: "set (shuffle ?coords) = {(r, c). 0 \<le> r \<and> r < height \<and> 0 \<le> c \<and> c < width}"
    by (simp only: grid_coords)
  have inr: "\<forall>(a, (r, c)) \<in> set ?ps.
               0 \<le> r \<and> r < int (nat height) \<and> 0 \<le> c \<and> c < int (nat width)"
  proof (clarify)
    fix a r c assume "(a, (r, c)) \<in> set ?ps"
    then have "(r, c) \<in> set (take (nat (int (length agents))) (shuffle ?coords))"
      by (rule set_zip_rightD)
    then have "(r, c) \<in> set (shuffle ?coords)" by (rule in_set_takeD)
    with sh show "0 \<le> r \<and> r < int (nat height) \<and> 0 \<le> c \<and> c < int (nat width)" by auto
  qed
  have "length ?m0 = nat height" by simp
  moreover have "\<forall>row \<in> set ?m0. length row = nat width" by auto
  ultimately obtain m' where
    "place ?m0 ?ps = Inr m'" "length m' = nat height" "\<forall>row \<in> set m'. length row = nat width"
    using place_in_range[OF _ _ inr] by blast
  moreover from False have "build_level height width agents shuffle = place ?m0 ?ps"
    by (simp add: build_level_def Let_def)
  ultimately show ?thesis using False by auto
qed

text \<open>Three agents on a grid of two rows and two columns, the coordinates reversed.\<close>

theorem build_level_raises_iff_witness:
  "(\<forall>cs :: (int \<times> int) list. mset (rev cs) = mset cs) \<and>
   build_level 2 2 [1, 2, 3, 4, 5 :: nat] rev = Inl ValueError \<and>
   build_level 2 2 [1, 2, 3 :: nat] rev = Inr [[None, Some 3], [Some 2, Some 1]] \<and>
   (\<exists>matrix. build_level 2 2 [1, 2, 3 :: nat] rev = Inr matrix \<and> length matrix = 2)"
proof -
  have h: "\<forall>cs :: (int \<times> int) list. mset (rev cs) = mset cs" by simp
  from build_level_raises_iff[OF h, of 2 2 "[1, 2, 3, 4, 5 :: nat]"]
  have c: "build_level 2 2 [1, 2, 3, 4, 5 :: nat] rev = Inl ValueError" by simp
  have e: "build_level 2 2 [1, 2, 3 :: nat] rev = Inr [[None, Some 3], [Some 2, Some 1]]"
    by code_simp
  from build_level_raises_iff[OF h, of 2 2 "[1, 2, 3 :: nat]"]
  have d: "\<exists>matrix. build_level 2 2 [1, 2, 3 :: nat] rev = Inr matrix \<and> length matrix = 2"
    by auto
  from h c e d show ?thesis by blast
qed

end
